theory Spec2Isabelle
  imports Complex_Main "HOL-Library.AList"
begin

section \<open>Python values, exceptions and iterators used by the notebooks\<close>

text \<open>
  The notebooks are straight-line Python cells. An exception is a value of \<open>py_error\<close>;
  a computation that may raise returns \<open>py_error + 'a\<close>, with \<open>Inl\<close> for the exception,
  and \<open>bind_err\<close> sequences two such computations: the first exception ends the cell.
\<close>

datatype py_error = KeyError string | StopIteration | TypeError | ZeroDivisionError

definition bind_err :: "'e + 'a \<Rightarrow> ('a \<Rightarrow> 'e + 'b) \<Rightarrow> 'e + 'b" where
  "bind_err r f = (case r of Inl e \<Rightarrow> Inl e | Inr a \<Rightarrow> f a)"

text \<open>
  The two kinds of object the generation cell binds to \<open>filts\<close> and \<open>objs\<close>: an
  \<^verbatim>\<open>itertools.cycle\<close> over a sequence, or the list literal \<^verbatim>\<open>[]\<close> of the
  \<^verbatim>\<open>except KeyError\<close> branch. A cycle object is always true in a condition, a list is
  true when it is not empty. \<^verbatim>\<open>next\<close> on a cycle yields the first element and rotates;
  on a cycle over an empty sequence it raises \<^verbatim>\<open>StopIteration\<close>; a list is not an
  iterator, so \<^verbatim>\<open>next\<close> on it raises \<^verbatim>\<open>TypeError\<close>.
\<close>

datatype 'a iterable = Cycle "'a list" | PyList "'a list"

fun truthy :: "'a iterable \<Rightarrow> bool" where
  "truthy (Cycle xs) = True"
| "truthy (PyList xs) = (xs \<noteq> [])"

fun next_it :: "'a iterable \<Rightarrow> py_error + ('a \<times> 'a iterable)" where
  "next_it (Cycle []) = Inl StopIteration"
| "next_it (Cycle (x # xs)) = Inr (x, Cycle (xs @ [x]))"
| "next_it (PyList xs) = Inl TypeError"

text \<open>
  \<^verbatim>\<open>f'{image_number:04d}'\<close>: the decimal digits of the number, padded with zeros on the
  left to four characters (a longer number is not cut).
\<close>

fun str_nat :: "nat \<Rightarrow> string" where
  "str_nat n = (if n < 10 then [''0123456789'' ! n]
                else str_nat (n div 10) @ [''0123456789'' ! (n mod 10)])"

declare str_nat.simps [simp del]

definition fmt_04d :: "nat \<Rightarrow> string" where
  "fmt_04d n = (let s = str_nat n in replicate (4 - length s) CHR ''0'' @ s)"

text \<open>
  \<^verbatim>\<open>str(image_path / name)\<close> for a relative directory written without a trailing
  separator, as \<^verbatim>\<open>data_directory\<close> is.
\<close>

definition path_join :: "string \<Rightarrow> string \<Rightarrow> string" where
  "path_join d f = (if d = [] then f else d @ ''/'' @ f)"


section \<open>The fake-image generation cell of 01.09-reading-images\<close>

text \<open>
  A \<^verbatim>\<open>CCDData\<close> image is modelled by the shape of its data array, its unit and its
  header \<^verbatim>\<open>meta\<close>, an ordered dictionary kept as an association list. The pixel values
  come from \<^verbatim>\<open>np.random.randn(*image_size)\<close> and are not modelled: only their shape is.
  A header value is a string or a float.
\<close>

datatype hval = HStr string | HFloat real

record ccd =
  ccd_shape :: "nat list"
  ccd_unit :: string
  meta :: "(string \<times> hval) list"

definition setitem :: "(string \<times> hval) list \<Rightarrow> string \<Rightarrow> hval \<Rightarrow> (string \<times> hval) list" where
  "setitem m k v = AList.update k v m"

text \<open>
  The state of the cell: the counter \<^verbatim>\<open>image_number\<close>, the files handed to
  \<^verbatim>\<open>img.write\<close> in order (name and image: the writer itself is astropy's), and the
  lines printed.
\<close>

record gen_state =
  image_number :: nat
  files :: "(string \<times> ccd) list"
  stdout :: "string list"

text \<open>
  \<^verbatim>\<open>if filts: img.meta['FILTER'] = next(filts)\<close>, and the same for \<^verbatim>\<open>objs\<close>.
\<close>

definition set_if_truthy ::
  "string iterable \<Rightarrow> string \<Rightarrow> ccd \<Rightarrow> py_error + (ccd \<times> string iterable)" where
  "set_if_truthy it k img =
     (if truthy it
      then bind_err (next_it it)
             (\<lambda>(v, it'). Inr (img\<lparr>meta := setitem (meta img) k (HStr v)\<rparr>, it'))
      else Inr (img, it))"

text \<open>The inner loop \<^verbatim>\<open>for _ in range(num)\<close>, one image per round.\<close>

fun gen_images ::
  "string \<Rightarrow> nat list \<Rightarrow> string \<Rightarrow> nat \<Rightarrow> real iterable \<Rightarrow> string iterable \<Rightarrow> string iterable
     \<Rightarrow> gen_state \<Rightarrow> py_error + gen_state" where
  "gen_images dir sz ty 0 exposures filts objs st = Inr st"
| "gen_images dir sz ty (Suc k) exposures filts objs st =
     (let img0 = \<lparr>ccd_shape = sz, ccd_unit = ''adu'', meta = []\<rparr>;
          img1 = img0\<lparr>meta := setitem (meta img0) ''IMAGETYP'' (HStr ty)\<rparr>
      in bind_err (next_it exposures) (\<lambda>(t, exposures').
         let img2 = img1\<lparr>meta := setitem (meta img1) ''EXPOSURE'' (HFloat t)\<rparr>
         in bind_err (set_if_truthy filts ''FILTER'' img2) (\<lambda>(img3, filts').
            bind_err (set_if_truthy objs ''OBJECT'' img3) (\<lambda>(img4, objs').
              let image_name = path_join dir (''img-'' @ fmt_04d (image_number st) @ ''.fits'');
                  st' = st\<lparr>files := files st @ [(image_name, img4)],
                            stdout := stdout st @ [image_name],
                            image_number := image_number st + 1\<rparr>
              in gen_images dir sz ty k exposures' filts' objs' st'))))"

text \<open>
  The outer loop over \<^verbatim>\<open>images_to_generate.items()\<close>, in insertion order. A type
  missing from \<^verbatim>\<open>exposure_times\<close> raises \<^verbatim>\<open>KeyError\<close>; one missing from
  \<^verbatim>\<open>filters\<close> or \<^verbatim>\<open>objects\<close> gives the empty list. A filter is a string, and a
  cycle over a string yields its characters as one-character strings.
\<close>

fun gen_types ::
  "string \<Rightarrow> nat list \<Rightarrow> (string \<times> real list) list \<Rightarrow> (string \<times> string) list
     \<Rightarrow> (string \<times> string list) list \<Rightarrow> (string \<times> nat) list \<Rightarrow> gen_state
     \<Rightarrow> py_error + gen_state" where
  "gen_types dir sz ets fs os [] st = Inr st"
| "gen_types dir sz ets fs os ((image_type, num) # rest) st =
     (case map_of ets image_type of
        None \<Rightarrow> Inl (KeyError image_type)
      | Some e \<Rightarrow>
          let exposures = Cycle e;
              filts = (case map_of fs image_type of
                         None \<Rightarrow> PyList []
                       | Some f \<Rightarrow> Cycle (map (\<lambda>c. [c]) f));
              objs = (case map_of os image_type of
                        None \<Rightarrow> PyList []
                      | Some ob \<Rightarrow> Cycle ob)
          in bind_err (gen_images dir sz image_type num exposures filts objs st)
                      (gen_types dir sz ets fs os rest))"

text \<open>The constants of the cell.\<close>

definition data_directory :: string where
  "data_directory = ''path/to/my/images''"

definition images_to_generate :: "(string \<times> nat) list" where
  "images_to_generate = [(''BIAS'', 5), (''DARK'', 10), (''FLAT'', 3), (''LIGHT'', 10)]"

definition exposure_times :: "(string \<times> real list) list" where
  "exposure_times = [(''BIAS'', [0.0]), (''DARK'', [5.0, 30.0]),
                     (''FLAT'', [5.0, 6.1, 7.3]), (''LIGHT'', [30.0])]"

definition filters :: "(string \<times> string) list" where
  "filters = [(''FLAT'', ''V''), (''LIGHT'', ''V'')]"

definition objects :: "(string \<times> string list) list" where
  "objects = [(''LIGHT'', [''m82'', ''xx cyg''])]"

definition image_size :: "nat list" where
  "image_size = [300, 200]"

definition fake_images :: "py_error + gen_state" where
  "fake_images =
     gen_types data_directory image_size exposure_times filters objects images_to_generate
       \<lparr>image_number = 0, files = [], stdout = []\<rparr>"

text \<open>
  \<open>outcome f\<close> is what \<open>f\<close> reads off the final state of the cell, or the
  exception that ended it; \<open>header k\<close> reads keyword \<open>k\<close> in the header of a file.
\<close>

definition outcome :: "(gen_state \<Rightarrow> 'a) \<Rightarrow> py_error + 'a" where
  "outcome f = map_sum id f fake_images"

definition header :: "string \<Rightarrow> string \<times> ccd \<Rightarrow> hval option" where
  "header k f = map_of (meta (snd f)) k"

definition base_name :: "string \<Rightarrow> string" where
  "base_name p = drop (length data_directory + 1) p"


section \<open>The distribution overlays of 03.01-Dark-current-The-ideal-case\<close>

text \<open>
  \<^verbatim>\<open>plot_dark_with_distributions\<close> draws a histogram of its image and overlays a
  Poisson and a Gaussian curve. The model keeps the parameters of the two frozen
  distributions and whether each curve is plotted; the histogram and the axes are
  matplotlib's. \<^verbatim>\<open>exposure\<close> and \<^verbatim>\<open>gain\<close> are globals of the notebook and are the
  first two arguments here. Floats are modelled as reals, and a division by a zero float
  or int raises \<^verbatim>\<open>ZeroDivisionError\<close>. \<^verbatim>\<open>n_images\<close> is a count, a natural number.
\<close>

record overlays =
  pois_mu :: real
  pois_shown :: bool
  gauss :: "(real \<times> real) option"

definition plot_dark_with_distributions ::
  "real \<Rightarrow> real \<Rightarrow> real \<Rightarrow> real \<Rightarrow> nat \<Rightarrow> bool \<Rightarrow> bool \<Rightarrow> py_error + overlays" where
  "plot_dark_with_distributions exposure gain rn dark_rate n_images show_poisson show_gaussian =
     (if gain = 0 then Inl ZeroDivisionError
      else let expected_mean_dark = dark_rate * exposure / gain;
               mu = expected_mean_dark * real n_images
           in if n_images = 0 then Inl ZeroDivisionError
              else Inr \<lparr>pois_mu = mu, pois_shown = show_poisson,
                        gauss = (if show_gaussian
                                 then Some (expected_mean_dark, rn / gain)
                                 else None)\<rparr>)"

text \<open>
  The later cell that plots the sum of the frames:
  \<^verbatim>\<open>stats.norm(loc=expected_mean_dark * n_images, scale=high_read_noise / gain * np.sqrt(n_images))\<close>.
\<close>

definition sum_of_frames_cell :: "real \<Rightarrow> real \<Rightarrow> real \<Rightarrow> real \<Rightarrow> nat \<Rightarrow> py_error + overlays" where
  "sum_of_frames_cell exposure gain high_read_noise dark_rate n_images =
     (if gain = 0 then Inl ZeroDivisionError
      else let expected_mean_dark = dark_rate * exposure / gain
           in Inr \<lparr>pois_mu = expected_mean_dark * real n_images, pois_shown = True,
                    gauss = Some (expected_mean_dark * real n_images,
                                  high_read_noise / gain * sqrt (real n_images))\<rparr>)"

definition gauss_scale :: "py_error + overlays \<Rightarrow> real option" where
  "gauss_scale r = (case r of Inl e \<Rightarrow> None | Inr ov \<Rightarrow> map_option snd (gauss ov))"

definition poisson_mean :: "py_error + overlays \<Rightarrow> real option" where
  "poisson_mean r = (case r of Inl e \<Rightarrow> None | Inr ov \<Rightarrow> Some (pois_mu ov))"


section \<open>The synthetic frame generator\<close>

text \<open>
  The notebooks import \<^verbatim>\<open>dark_current\<close> and \<^verbatim>\<open>read_noise\<close> from the module
  \<^verbatim>\<open>image_sim\<close>, whose source is not among the notebooks; only the calls are. The
  definitions of this section follow the specification of the generator instead, and each
  says so.

  The random-distribution library is outside the repository. It is a parameter of the
  model: a record of samplers over a generator state \<open>'g\<close>, each returning a sample and
  the next state, or the error \<open>'e\<close> the library reports for parameters outside its domain.
  The two things the specification leaves open about hot pixels are fields of the same
  record: \<open>hot_select\<close> decides for one pixel whether it is hot (the configured
  fraction), and \<open>hot_rate\<close> gives the elevated rate for a supplied rate.
\<close>

record ('e, 'g) rnd_lib =
  poisson :: "real \<Rightarrow> 'g \<Rightarrow> 'e + (real \<times> 'g)"
  normal :: "real \<Rightarrow> real \<Rightarrow> 'g \<Rightarrow> 'e + (real \<times> 'g)"
  hot_select :: "'g \<Rightarrow> bool \<times> 'g"
  hot_rate :: "real \<Rightarrow> real"
  seed :: "nat \<Rightarrow> 'g"

text \<open>
  Modelled from the spec: the arrays of the missing module \<^verbatim>\<open>image_sim\<close>. A frame
  is "a 2-D numeric array of per-pixel values, dimensions fixed at creation", a hot-pixel
  mask "a boolean array, same shape as the frame". An array is its shape and its values
  in row-major order.
\<close>

record 'a ndarray =
  nd_shape :: "nat \<times> nat"
  nd_data :: "'a list"

text \<open>
  Modelled from the spec: the number of pixels of an array of the missing module
  \<^verbatim>\<open>image_sim\<close>, the product of its two dimensions.
\<close>

definition npixels :: "'a ndarray \<Rightarrow> nat" where
  "npixels a = fst (nd_shape a) * snd (nd_shape a)"

text \<open>
  Modelled from the spec: "dimensions fixed at creation"; an array of the missing module
  \<^verbatim>\<open>image_sim\<close> is well shaped when it holds one value per pixel of its shape.
\<close>

definition well_shaped :: "'a ndarray \<Rightarrow> bool" where
  "well_shaped a = (length (nd_data a) = npixels a)"

text \<open>\<^verbatim>\<open>np.zeros([h, w])\<close>, the template the notebooks pass.\<close>

definition zeros :: "nat \<times> nat \<Rightarrow> real ndarray" where
  "zeros sh = \<lparr>nd_shape = sh, nd_data = replicate (fst sh * snd sh) 0\<rparr>"

text \<open>
  Modelled from the spec: the per-pixel sampling of the missing module
  \<^verbatim>\<open>image_sim\<close>, "for each pixel, draws" a sample. One draw per parameter of the
  list, threading the generator state; the first error of the library ends the drawing and
  is the result ("not recovered, propagates directly to the caller").
\<close>

fun draw_each ::
  "('p \<Rightarrow> 'g \<Rightarrow> 'e + ('a \<times> 'g)) \<Rightarrow> 'p list \<Rightarrow> 'g \<Rightarrow> 'e + ('a list \<times> 'g)" where
  "draw_each smp [] g = Inr ([], g)"
| "draw_each smp (p # ps) g =
     bind_err (smp p g) (\<lambda>(x, g').
       bind_err (draw_each smp ps g') (\<lambda>(xs, g''). Inr (x # xs, g'')))"

text \<open>
  Modelled from the spec: the selection of the hot pixels in the missing
  \<^verbatim>\<open>image_sim.dark_current\<close>, for a mask "marking pixels assigned an elevated rate;
  generated once per call". One selection per pixel of the template.
\<close>

fun select_each :: "('g \<Rightarrow> bool \<times> 'g) \<Rightarrow> nat \<Rightarrow> 'g \<Rightarrow> bool list \<times> 'g" where
  "select_each sel 0 g = ([], g)"
| "select_each sel (Suc n) g =
     (let (b, g') = sel g; (bs, g'') = select_each sel n g' in (b # bs, g''))"

text \<open>
  Modelled from the spec: the mask of one call of the missing
  \<^verbatim>\<open>image_sim.dark_current\<close>, shaped like the template.
\<close>

definition hot_pixel_mask :: "('e, 'g) rnd_lib \<Rightarrow> real ndarray \<Rightarrow> 'g \<Rightarrow> bool ndarray \<times> 'g" where
  "hot_pixel_mask L base_frame g =
     (let (bs, g') = select_each (hot_select L) (npixels base_frame) g
      in (\<lparr>nd_shape = nd_shape base_frame, nd_data = bs\<rparr>, g'))"

text \<open>
  Modelled from the spec: the missing function \<^verbatim>\<open>image_sim.dark_current\<close>,
  \<^verbatim>\<open>dark_current(base_frame, rate, exposure_time, gain, hot_pixels)\<close>: "for each pixel,
  draws a Poisson-distributed count with mean rate * exposure_time / gain; when hot_pixels
  is enabled, a small fixed fraction of pixels instead use a substantially higher rate.
  Returns a new array shaped like base_frame." The quotient is the one of the reals; a
  gain of zero is outside what the model describes.
\<close>

definition dark_current ::
  "('e, 'g) rnd_lib \<Rightarrow> real ndarray \<Rightarrow> real \<Rightarrow> real \<Rightarrow> real \<Rightarrow> bool \<Rightarrow> 'g
     \<Rightarrow> 'e + (real ndarray \<times> 'g)" where
  "dark_current L base_frame rate exposure_time gain hot_pixels g =
     (let (rates, g1) =
            (if hot_pixels
             then let (mask, g') = hot_pixel_mask L base_frame g
                  in (map (\<lambda>h. if h then hot_rate L rate else rate) (nd_data mask), g')
             else (replicate (npixels base_frame) rate, g))
      in bind_err (draw_each (poisson L) (map (\<lambda>r. r * exposure_time / gain) rates) g1)
           (\<lambda>(counts, g2). Inr (\<lparr>nd_shape = nd_shape base_frame, nd_data = counts\<rparr>, g2)))"

text \<open>
  Modelled from the spec: the missing function \<^verbatim>\<open>image_sim.read_noise\<close>,
  \<^verbatim>\<open>read_noise(base_frame, read_noise_electrons, gain)\<close>: "for each pixel, draws a
  zero-mean Gaussian sample with standard deviation read_noise_electrons / gain. Returns a
  new array shaped like base_frame."
\<close>

definition read_noise ::
  "('e, 'g) rnd_lib \<Rightarrow> real ndarray \<Rightarrow> real \<Rightarrow> real \<Rightarrow> 'g \<Rightarrow> 'e + (real ndarray \<times> 'g)" where
  "read_noise L base_frame read_noise_electrons gain g =
     bind_err (draw_each (normal L 0)
                 (replicate (npixels base_frame) (read_noise_electrons / gain)) g)
       (\<lambda>(noise, g'). Inr (\<lparr>nd_shape = nd_shape base_frame, nd_data = noise\<rparr>, g'))"


text \<open>
  Modelled from the spec: the per-pixel rates of one call of the missing
  \<^verbatim>\<open>image_sim.dark_current\<close>, the supplied rate, or the elevated rate where the mask
  marks a hot pixel. It is the list of rates in the definition of \<open>dark_current\<close>.
\<close>

definition pixel_rates ::
  "('e, 'g) rnd_lib \<Rightarrow> real ndarray \<Rightarrow> real \<Rightarrow> bool \<Rightarrow> 'g \<Rightarrow> real list \<times> 'g" where
  "pixel_rates L base_frame rate hot_pixels g =
     (if hot_pixels
      then let (mask, g') = hot_pixel_mask L base_frame g
           in (map (\<lambda>h. if h then hot_rate L rate else rate) (nd_data mask), g')
      else (replicate (npixels base_frame) rate, g))"


subsection \<open>Calls on shared arrays\<close>

text \<open>
  Python passes arrays by reference, and a function can write into the array it is
  given. The world of a notebook is a heap of arrays, an address being an index into it,
  and the state of the shared random source. A call takes the address of its template and
  the world, and gives back the address of its result and the world after the call, or the
  failure and the world at the moment of the raise. An address that names no array cannot
  arise in Python; the model reports it as \<open>Dangling\<close>.
\<close>

record 'g world =
  heap :: "real ndarray list"
  rng :: 'g

datatype 'e failure = Dangling nat | Raised 'e

definition nth_opt :: "'a list \<Rightarrow> nat \<Rightarrow> 'a option" where
  "nth_opt xs i = (if i < length xs then Some (xs ! i) else None)"

text \<open>
  Modelled from the spec: the missing functions of \<^verbatim>\<open>image_sim\<close> return "a new array
  shaped like base_frame", "freshly allocated". The new array is stored at the next free
  address, all zero until its pixels are written.
\<close>

definition alloc_like :: "real ndarray \<Rightarrow> 'g world \<Rightarrow> nat \<times> 'g world" where
  "alloc_like base_frame w =
     (length (heap w), w\<lparr>heap := heap w @ [zeros (nd_shape base_frame)]\<rparr>)"

text \<open>
  Modelled from the spec: one pixel of an array of the missing module \<^verbatim>\<open>image_sim\<close>
  is assigned, pixel \<open>i\<close> (row-major) of the array at address \<open>r\<close>.
\<close>

definition write_pixel :: "nat \<Rightarrow> nat \<Rightarrow> real \<Rightarrow> 'g world \<Rightarrow> 'g world" where
  "write_pixel r i x w =
     (case nth_opt (heap w) r of
        None \<Rightarrow> w
      | Some arr \<Rightarrow> w\<lparr>heap := (heap w)[r := arr\<lparr>nd_data := (nd_data arr)[i := x]\<rparr>]\<rparr>)"

text \<open>
  Modelled from the spec: the sampling loop of the missing functions of
  \<^verbatim>\<open>image_sim\<close>, "for each pixel, draws" a sample from the shared random source and
  stores it in the new array, starting at pixel \<open>i\<close>. An error of the library ends the
  loop: it "is not recovered and propagates directly to the caller".
\<close>

fun fill_pixels ::
  "('p \<Rightarrow> 'g \<Rightarrow> 'e + (real \<times> 'g)) \<Rightarrow> nat \<Rightarrow> nat \<Rightarrow> 'p list \<Rightarrow> 'g world
     \<Rightarrow> ('e failure \<times> 'g world) + 'g world" where
  "fill_pixels smp r i [] w = Inr w"
| "fill_pixels smp r i (p # ps) w =
     (case smp p (rng w) of
        Inl e \<Rightarrow> Inl (Raised e, w)
      | Inr (x, g') \<Rightarrow> fill_pixels smp r (Suc i) ps (write_pixel r i x (w\<lparr>rng := g'\<rparr>)))"

text \<open>
  Modelled from the spec: a call of the missing \<^verbatim>\<open>image_sim.dark_current\<close> on the
  array at address \<open>a\<close>: the rates of the pixels are fixed (drawing the mask when hot
  pixels are enabled), a new array shaped like the template is allocated, and its pixels
  are drawn one by one.
\<close>

definition call_dark_current ::
  "('e, 'g) rnd_lib \<Rightarrow> nat \<Rightarrow> real \<Rightarrow> real \<Rightarrow> real \<Rightarrow> bool \<Rightarrow> 'g world
     \<Rightarrow> ('e failure \<times> 'g world) + (nat \<times> 'g world)" where
  "call_dark_current L a rate exposure_time gain hot_pixels w =
     (case nth_opt (heap w) a of
        None \<Rightarrow> Inl (Dangling a, w)
      | Some base_frame \<Rightarrow>
          let (rates, g1) = pixel_rates L base_frame rate hot_pixels (rng w);
              (r, w1) = alloc_like base_frame (w\<lparr>rng := g1\<rparr>)
          in map_sum id (Pair r)
               (fill_pixels (poisson L) r 0 (map (\<lambda>x. x * exposure_time / gain) rates) w1))"

text \<open>
  Modelled from the spec: a call of the missing \<^verbatim>\<open>image_sim.read_noise\<close> on the array
  at address \<open>a\<close>.
\<close>

definition call_read_noise ::
  "('e, 'g) rnd_lib \<Rightarrow> nat \<Rightarrow> real \<Rightarrow> real \<Rightarrow> 'g world
     \<Rightarrow> ('e failure \<times> 'g world) + (nat \<times> 'g world)" where
  "call_read_noise L a read_noise_electrons gain w =
     (case nth_opt (heap w) a of
        None \<Rightarrow> Inl (Dangling a, w)
      | Some base_frame \<Rightarrow>
          let (r, w1) = alloc_like base_frame w
          in map_sum id (Pair r)
               (fill_pixels (normal L 0) r 0
                  (replicate (npixels base_frame) (read_noise_electrons / gain)) w1))"

definition pixels_at :: "'g world \<Rightarrow> nat \<Rightarrow> real list" where
  "pixels_at w a = (case nth_opt (heap w) a of None \<Rightarrow> [] | Some x \<Rightarrow> nd_data x)"

text \<open>
  The loop of 03.01-Dark-current-The-ideal-case that fills \<^verbatim>\<open>darks\<close>:
  \<^verbatim>\<open>
  for n in range(n_images):
      darks[n] = dark_current(base_image, dark_rate, exposure, gain=gain, hot_pixels=False)
      darks[n] = darks[n] + read_noise(base_image, high_read_noise, gain=gain)
  \<close>
  Both calls of a round get the same \<^verbatim>\<open>base_image\<close>. The result is the list of the
  slices \<^verbatim>\<open>darks[0]\<close>, \<^verbatim>\<open>darks[1]\<close>, ... and the world after the loop, or the
  failure that ended it and the world at that moment.
\<close>

fun darks_loop ::
  "('e, 'g) rnd_lib \<Rightarrow> nat \<Rightarrow> real \<Rightarrow> real \<Rightarrow> real \<Rightarrow> real \<Rightarrow> nat \<Rightarrow> 'g world
     \<Rightarrow> ('e failure \<times> 'g world) + (real list list \<times> 'g world)" where
  "darks_loop L base_image dark_rate exposure gain rn 0 w = Inr ([], w)"
| "darks_loop L base_image dark_rate exposure gain rn (Suc k) w =
     bind_err (call_dark_current L base_image dark_rate exposure gain False w) (\<lambda>(d, w1).
     bind_err (call_read_noise L base_image rn gain w1) (\<lambda>(r, w2).
     bind_err (darks_loop L base_image dark_rate exposure gain rn k w2) (\<lambda>(ds, w3).
       Inr (map2 (+) (pixels_at w2 d) (pixels_at w2 r) # ds, w3))))"




subsection \<open>A deterministic stand-in for the random library\<close>

text \<open>
  A library instance to run the generator on: the generator state is a counter, each
  draw returns a value computed from the counter and the parameter and increments the
  counter. It rejects a negative Poisson mean and a negative Gaussian scale, returns 0 for
  a Poisson mean of 0 and the location for a Gaussian scale of 0, as numpy does. It has no
  statistical meaning; it serves to run the definitions on concrete inputs.
\<close>

definition counter_lib :: "(string, nat) rnd_lib" where
  "counter_lib =
     \<lparr>poisson = (\<lambda>mu g. if mu < 0 then Inl ''lam < 0''
                         else Inr (if mu = 0 then 0
                                   else real_of_int \<lfloor>mu\<rfloor> + real (g mod 3), g + 1)),
      normal = (\<lambda>loc sd g. if sd < 0 then Inl ''scale < 0''
                            else Inr (loc + sd * (real (g mod 3) - 1), g + 1)),
      hot_select = (\<lambda>g. (g mod 4 = 0, g + 1)),
      hot_rate = (\<lambda>r. 10000 * r),
      seed = (\<lambda>s. s)\<rparr>"

definition demo_world :: "nat world" where
  "demo_world = \<lparr>heap = [zeros (2, 2)], rng = 0\<rparr>"


text \<open>
  Worlds of the runs below: \<open>demo_world\<close> after a call of \<^verbatim>\<open>dark_current\<close>, after a
  call that raised, after a call of \<^verbatim>\<open>read_noise\<close>, after one round of the loop, and a
  world that holds an equal template at another address, with another state of the
  random source.
\<close>

definition dark_world :: "nat world" where
  "dark_world = \<lparr>heap = [zeros (2, 2), \<lparr>nd_shape = (2, 2), nd_data = [6, 7, 8, 6]\<rparr>], rng = 4\<rparr>"

definition raised_world :: "nat world" where
  "raised_world = \<lparr>heap = [zeros (2, 2), zeros (2, 2)], rng = 0\<rparr>"

definition noise_world :: "nat world" where
  "noise_world =
     \<lparr>heap = [zeros (2, 2), \<lparr>nd_shape = (2, 2), nd_data = [- (20/3), 0, 20/3, - (20/3)]\<rparr>],
      rng = 4\<rparr>"

definition darks_world :: "nat world" where
  "darks_world =
     \<lparr>heap = [zeros (2, 2), \<lparr>nd_shape = (2, 2), nd_data = [6, 7, 8, 6]\<rparr>,
              \<lparr>nd_shape = (2, 2), nd_data = [0, 20/3, - (20/3), 0]\<rparr>],
      rng = 8\<rparr>"



section \<open>Results on the generation cell\<close>

lemma map_sum_proj:
  "map_sum id f r = Inr y \<Longrightarrow> map_sum id (\<lambda>st. g (f st)) r = Inr (g y)"
  by (cases r) auto

lemma fake_images_eval:
  "outcome (\<lambda>st. (image_number st, length (files st), map (base_name \<circ> fst) (files st),
       map (header ''IMAGETYP'') (files st), map (header ''EXPOSURE'') (files st),
       map (header ''FILTER'') (files st), map (header ''OBJECT'') (files st),
       map (ccd_shape \<circ> snd) (files st)))
   = Inr (28, 28,
       map (\<lambda>s. ''img-00'' @ s @ ''.fits'')
         [''00'', ''01'', ''02'', ''03'', ''04'', ''05'', ''06'', ''07'', ''08'', ''09'',
          ''10'', ''11'', ''12'', ''13'', ''14'', ''15'', ''16'', ''17'', ''18'', ''19'',
          ''20'', ''21'', ''22'', ''23'', ''24'', ''25'', ''26'', ''27''],
       replicate 5 (Some (HStr ''BIAS'')) @ replicate 10 (Some (HStr ''DARK''))
         @ replicate 3 (Some (HStr ''FLAT'')) @ replicate 10 (Some (HStr ''LIGHT'')),
       map (Some \<circ> HFloat) (replicate 5 0.0 @ concat (replicate 5 [5.0, 30.0])
         @ [5.0, 6.1, 7.3] @ replicate 10 30.0),
       replicate 15 None @ replicate 13 (Some (HStr ''V'')),
       replicate 18 None @ concat (replicate 5 [Some (HStr ''m82''), Some (HStr ''xx cyg'')]),
       replicate 28 [300, 200])"
  by code_simp

text \<open>
  C10. The generation cell ends without an exception, having written exactly 28 files,
  named img-0000.fits to img-0027.fits in this order; their types are 5 BIAS, 10 DARK,
  3 FLAT and 10 LIGHT, in this order; every image has shape [300, 200] and the IMAGETYP and
  EXPOSURE keywords; the exposure times cycle through the list of the type, so the DARK
  frames alternate 5.0 and 30.0; FILTER is written for the FLAT and LIGHT images only, and
  OBJECT for the LIGHT images only, alternating m82 and xx cyg.
\<close>

theorem fake_images_written:
  "outcome image_number = Inr 28
   \<and> outcome (\<lambda>st. length (files st)) = Inr 28
   \<and> outcome (\<lambda>st. map (base_name \<circ> fst) (files st)) =
       Inr (map (\<lambda>s. ''img-00'' @ s @ ''.fits'')
         [''00'', ''01'', ''02'', ''03'', ''04'', ''05'', ''06'', ''07'', ''08'', ''09'',
          ''10'', ''11'', ''12'', ''13'', ''14'', ''15'', ''16'', ''17'', ''18'', ''19'',
          ''20'', ''21'', ''22'', ''23'', ''24'', ''25'', ''26'', ''27''])
   \<and> outcome (\<lambda>st. map (header ''IMAGETYP'') (files st)) =
       Inr (replicate 5 (Some (HStr ''BIAS'')) @ replicate 10 (Some (HStr ''DARK''))
         @ replicate 3 (Some (HStr ''FLAT'')) @ replicate 10 (Some (HStr ''LIGHT'')))
   \<and> outcome (\<lambda>st. map (header ''EXPOSURE'') (files st)) =
       Inr (map (Some \<circ> HFloat) (replicate 5 0.0 @ concat (replicate 5 [5.0, 30.0])
         @ [5.0, 6.1, 7.3] @ replicate 10 30.0))
   \<and> outcome (\<lambda>st. map (header ''FILTER'') (files st)) =
       Inr (replicate 15 None @ replicate 13 (Some (HStr ''V'')))
   \<and> outcome (\<lambda>st. map (header ''OBJECT'') (files st)) =
       Inr (replicate 18 None
         @ concat (replicate 5 [Some (HStr ''m82''), Some (HStr ''xx cyg'')]))
   \<and> outcome (\<lambda>st. map (ccd_shape \<circ> snd) (files st)) = Inr (replicate 28 [300, 200])"
proof -
  note e = fake_images_eval [unfolded outcome_def]
  have "outcome image_number = Inr 28"
    unfolding outcome_def
    using map_sum_proj [OF e, of "\<lambda>(a, b, c, d, e, f, g, h). a"] by simp
  moreover have "outcome (\<lambda>st. length (files st)) = Inr 28"
    unfolding outcome_def
    using map_sum_proj [OF e, of "\<lambda>(a, b, c, d, e, f, g, h). b"] by simp
  moreover have "outcome (\<lambda>st. map (base_name \<circ> fst) (files st)) =
       Inr (map (\<lambda>s. ''img-00'' @ s @ ''.fits'')
         [''00'', ''01'', ''02'', ''03'', ''04'', ''05'', ''06'', ''07'', ''08'', ''09'',
          ''10'', ''11'', ''12'', ''13'', ''14'', ''15'', ''16'', ''17'', ''18'', ''19'',
          ''20'', ''21'', ''22'', ''23'', ''24'', ''25'', ''26'', ''27''])"
    unfolding outcome_def
    using map_sum_proj [OF e, of "\<lambda>(a, b, c, d, e, f, g, h). c"] by simp
  moreover have "outcome (\<lambda>st. map (header ''IMAGETYP'') (files st)) =
       Inr (replicate 5 (Some (HStr ''BIAS'')) @ replicate 10 (Some (HStr ''DARK''))
         @ replicate 3 (Some (HStr ''FLAT'')) @ replicate 10 (Some (HStr ''LIGHT'')))"
    unfolding outcome_def
    using map_sum_proj [OF e, of "\<lambda>(a, b, c, d, e, f, g, h). d"] by simp
  moreover have "outcome (\<lambda>st. map (header ''EXPOSURE'') (files st)) =
       Inr (map (Some \<circ> HFloat) (replicate 5 0.0 @ concat (replicate 5 [5.0, 30.0])
         @ [5.0, 6.1, 7.3] @ replicate 10 30.0))"
    unfolding outcome_def
    using map_sum_proj [OF e, of "\<lambda>(a, b, c, d, e, f, g, h). e"] by simp
  moreover have "outcome (\<lambda>st. map (header ''FILTER'') (files st)) =
       Inr (replicate 15 None @ replicate 13 (Some (HStr ''V'')))"
    unfolding outcome_def
    using map_sum_proj [OF e, of "\<lambda>(a, b, c, d, e, f, g, h). f"] by simp
  moreover have "outcome (\<lambda>st. map (header ''OBJECT'') (files st)) =
       Inr (replicate 18 None
         @ concat (replicate 5 [Some (HStr ''m82''), Some (HStr ''xx cyg'')]))"
    unfolding outcome_def
    using map_sum_proj [OF e, of "\<lambda>(a, b, c, d, e, f, g, h). g"] by simp
  moreover have "outcome (\<lambda>st. map (ccd_shape \<circ> snd) (files st)) = Inr (replicate 28 [300, 200])"
    unfolding outcome_def
    using map_sum_proj [OF e, of "\<lambda>(a, b, c, d, e, f, g, h). h"] by simp
  ultimately show ?thesis by blast
qed


section \<open>Results on the distribution overlays\<close>

lemma sqrt_scale_eq_iff:
  fixes s :: real
  assumes "s \<noteq> 0"
  shows "s = s * sqrt (real n) \<longleftrightarrow> n = 1"
proof
  assume "s = s * sqrt (real n)"
  with assms have "sqrt (real n) = 1" by simp
  then show "n = 1" by simp
next
  assume "n = 1"
  then show "s = s * sqrt (real n)" by simp
qed

text \<open>
  C9. For every positive number of images and a gain that is not zero, the Poisson
  curve of plot_dark_with_distributions has mean (dark_rate * exposure / gain) * n_images
  and its Gaussian has standard deviation rn / gain, whatever n_images is; the cell that
  plots the sum of the frames uses rn / gain * sqrt n_images instead; when the read noise
  is not zero, the two standard deviations agree exactly when n_images = 1.
\<close>

theorem helper_gaussian_ignores_n_images:
  assumes "gain \<noteq> 0" and "0 < n_images"
  shows "poisson_mean (plot_dark_with_distributions exposure gain rn dark_rate n_images sp True)
           = Some (dark_rate * exposure / gain * real n_images)
       \<and> gauss_scale (plot_dark_with_distributions exposure gain rn dark_rate n_images sp True)
           = Some (rn / gain)
       \<and> gauss_scale (sum_of_frames_cell exposure gain rn dark_rate n_images)
           = Some (rn / gain * sqrt (real n_images))
       \<and> (rn \<noteq> 0 \<longrightarrow>
            (gauss_scale (plot_dark_with_distributions exposure gain rn dark_rate n_images sp True)
               = gauss_scale (sum_of_frames_cell exposure gain rn dark_rate n_images)
             \<longleftrightarrow> n_images = 1))"
proof -
  have h: "gauss_scale (plot_dark_with_distributions exposure gain rn dark_rate n_images sp True)
             = Some (rn / gain)"
    using assms by (simp add: plot_dark_with_distributions_def gauss_scale_def Let_def)
  have c: "gauss_scale (sum_of_frames_cell exposure gain rn dark_rate n_images)
             = Some (rn / gain * sqrt (real n_images))"
    using assms by (simp add: sum_of_frames_cell_def gauss_scale_def Let_def)
  have p: "poisson_mean (plot_dark_with_distributions exposure gain rn dark_rate n_images sp True)
             = Some (dark_rate * exposure / gain * real n_images)"
    using assms by (simp add: plot_dark_with_distributions_def poisson_mean_def Let_def)
  have e: "rn \<noteq> 0 \<longrightarrow> (rn / gain = rn / gain * sqrt (real n_images) \<longleftrightarrow> n_images = 1)"
  proof
    assume "rn \<noteq> 0"
    with assms have "rn / gain \<noteq> 0" by simp
    from sqrt_scale_eq_iff [OF this, of n_images]
    show "rn / gain = rn / gain * sqrt (real n_images) \<longleftrightarrow> n_images = 1" .
  qed
  from h c p e show ?thesis by simp
qed

theorem helper_gaussian_ignores_n_images_witness:
  "(1.5::real) \<noteq> 0 \<and> 0 < (20::nat) \<and> (10::real) \<noteq> 0
   \<and> poisson_mean (plot_dark_with_distributions 100 1.5 10 0.1 20 True True)
       = Some (0.1 * 100 / 1.5 * 20)
   \<and> gauss_scale (plot_dark_with_distributions 100 1.5 10 0.1 20 True True) = Some (10 / 1.5)
   \<and> gauss_scale (plot_dark_with_distributions 100 1.5 10 0.1 20 True True)
       \<noteq> gauss_scale (sum_of_frames_cell 100 1.5 10 0.1 20)"
  using helper_gaussian_ignores_n_images [of "1.5" 20 100 10 "0.1" True]
  by simp

section \<open>Results on the synthetic frame generator\<close>

subsection \<open>Shapes\<close>

lemma draw_each_length:
  "draw_each smp ps g = Inr (xs, g') \<Longrightarrow> length xs = length ps"
proof (induction ps arbitrary: g xs)
  case Nil
  then show ?case by simp
next
  case (Cons p ps)
  then show ?case
    by (auto simp: bind_err_def split: sum.splits prod.splits)
qed

lemma select_each_length: "length (fst (select_each sel n g)) = n"
proof (induction n arbitrary: g)
  case 0
  then show ?case by simp
next
  case (Suc n)
  obtain b g1 where b: "sel g = (b, g1)" by (cases "sel g")
  obtain bs g2 where bs: "select_each sel n g1 = (bs, g2)" by (cases "select_each sel n g1")
  from Suc [of g1] bs have "length bs = n" by simp
  with b bs show ?case by simp
qed

lemma dark_current_shape:
  assumes "dark_current L base rate t gain hot g = Inr (fr, g')"
  shows "nd_shape fr = nd_shape base \<and> well_shaped fr"
proof (cases hot)
  case True
  obtain bs g1 where s: "select_each (hot_select L) (npixels base) g = (bs, g1)"
    by (cases "select_each (hot_select L) (npixels base) g")
  from select_each_length [of "hot_select L" "npixels base" g] s
  have len: "length bs = npixels base" by simp
  from assms True s obtain counts where
    d: "draw_each (poisson L) (map (\<lambda>r. r * t / gain) (map (\<lambda>h. if h then hot_rate L rate else rate) bs)) g1
          = Inr (counts, g')"
    and fr: "fr = \<lparr>nd_shape = nd_shape base, nd_data = counts\<rparr>"
    by (auto simp: dark_current_def hot_pixel_mask_def bind_err_def split: sum.splits)
  from draw_each_length [OF d] len fr show ?thesis
    by (simp add: well_shaped_def npixels_def)
next
  case False
  from assms False obtain counts where
    d: "draw_each (poisson L) (map (\<lambda>r. r * t / gain) (replicate (npixels base) rate)) g
          = Inr (counts, g')"
    and fr: "fr = \<lparr>nd_shape = nd_shape base, nd_data = counts\<rparr>"
    by (auto simp: dark_current_def bind_err_def split: sum.splits)
  from draw_each_length [OF d] fr show ?thesis
    by (simp add: well_shaped_def npixels_def)
qed

lemma read_noise_shape:
  assumes "read_noise L base rn gain g = Inr (fr, g')"
  shows "nd_shape fr = nd_shape base \<and> well_shaped fr"
proof -
  from assms obtain noise where
    d: "draw_each (normal L 0) (replicate (npixels base) (rn / gain)) g = Inr (noise, g')"
    and fr: "fr = \<lparr>nd_shape = nd_shape base, nd_data = noise\<rparr>"
    by (auto simp: read_noise_def bind_err_def split: sum.splits)
  from draw_each_length [OF d] fr show ?thesis
    by (simp add: well_shaped_def npixels_def)
qed

lemma hot_pixel_mask_shape:
  "nd_shape (fst (hot_pixel_mask L base g)) = nd_shape base
   \<and> well_shaped (fst (hot_pixel_mask L base g))"
proof -
  obtain bs g1 where s: "select_each (hot_select L) (npixels base) g = (bs, g1)"
    by (cases "select_each (hot_select L) (npixels base) g")
  from select_each_length [of "hot_select L" "npixels base" g] s
  have "length bs = npixels base" by simp
  with s show ?thesis
    by (simp add: hot_pixel_mask_def well_shaped_def npixels_def)
qed

text \<open>
  C3. Whenever dark_current or read_noise returns an array, it has the shape of the
  template base_frame, both dimensions, and holds one value per pixel of that shape; the
  hot-pixel mask of a call has the shape of the template too, hence of the frame the call
  returns.
\<close>

theorem generator_shapes:
  "(dark_current L base rate t gain hot g = Inr (fr, g1)
      \<longrightarrow> nd_shape fr = nd_shape base \<and> well_shaped fr)
   \<and> (read_noise L base rn gain g = Inr (fn, g2)
      \<longrightarrow> nd_shape fn = nd_shape base \<and> well_shaped fn)
   \<and> nd_shape (fst (hot_pixel_mask L base g)) = nd_shape base
   \<and> well_shaped (fst (hot_pixel_mask L base g))
   \<and> (dark_current L base rate t gain True g = Inr (fh, g3)
      \<longrightarrow> nd_shape (fst (hot_pixel_mask L base g)) = nd_shape fh)"
  using dark_current_shape [of L base rate t gain hot g fr g1]
    dark_current_shape [of L base rate t gain True g fh g3]
    read_noise_shape [of L base rn gain g fn g2] hot_pixel_mask_shape [of L base g]
  by simp

lemma dc_eval:
  "dark_current counter_lib (zeros (2, 3)) 0.1 100 1.5 True 0
   = Inr (\<lparr>nd_shape = (2, 3), nd_data = [66666, 7, 8, 6, 66667, 8]\<rparr>, 12)"
  by code_simp

lemma rn_eval:
  "read_noise counter_lib (zeros (2, 3)) 10 1.5 0
   = Inr (\<lparr>nd_shape = (2, 3), nd_data = [- (20/3), 0, 20/3, - (20/3), 0, 20/3]\<rparr>, 6)"
  by code_simp

theorem generator_shapes_witness:
  "dark_current counter_lib (zeros (2, 3)) 0.1 100 1.5 True 0
     = Inr (\<lparr>nd_shape = (2, 3), nd_data = [66666, 7, 8, 6, 66667, 8]\<rparr>, 12)
   \<and> read_noise counter_lib (zeros (2, 3)) 10 1.5 0
     = Inr (\<lparr>nd_shape = (2, 3), nd_data = [- (20/3), 0, 20/3, - (20/3), 0, 20/3]\<rparr>, 6)
   \<and> well_shaped \<lparr>nd_shape = (2, 3), nd_data = [66666, 7, 8, 6, 66667, 8 :: real]\<rparr>
   \<and> well_shaped \<lparr>nd_shape = (2, 3), nd_data = [- (20/3), 0, 20/3, - (20/3), 0, 20/3 :: real]\<rparr>
   \<and> nd_shape (fst (hot_pixel_mask counter_lib (zeros (2, 3)) 0)) = (2, 3)"
  using generator_shapes [of counter_lib "zeros (2, 3)" "0.1" 100 "1.5" True 0
      "\<lparr>nd_shape = (2, 3), nd_data = [66666, 7, 8, 6, 66667, 8]\<rparr>" 12 10
      "\<lparr>nd_shape = (2, 3), nd_data = [- (20/3), 0, 20/3, - (20/3), 0, 20/3]\<rparr>" 6
      "\<lparr>nd_shape = (2, 3), nd_data = [66666, 7, 8, 6, 66667, 8]\<rparr>" 12]
    dc_eval rn_eval
  by (simp add: zeros_def)


subsection \<open>A call returns the array the generator computes\<close>



lemma map_sum_Pair_Inr: "map_sum id (Pair r) x = Inr (r', w') \<longleftrightarrow> r' = r \<and> x = Inr w'"
  by (cases x) auto

lemma map_sum_Pair_Inl: "map_sum id (Pair r) x = Inl fw \<longleftrightarrow> x = Inl fw"
  by (cases x) auto











subsection \<open>The template is not mutated\<close>

lemma write_pixel_frame:
  "length (heap (write_pixel r i x w)) = length (heap w)
   \<and> take r (heap (write_pixel r i x w)) = take r (heap w)
   \<and> rng (write_pixel r i x w) = rng w"
  by (simp add: write_pixel_def split: option.splits)

lemma fill_pixels_frame:
  "fill_pixels smp r i ps w = Inr w' \<or> fill_pixels smp r i ps w = Inl (f, w')
   \<Longrightarrow> length (heap w') = length (heap w) \<and> take r (heap w') = take r (heap w)"
proof (induction ps arbitrary: i w)
  case Nil
  then show ?case by auto
next
  case (Cons p ps)
  show ?case
  proof (cases "smp p (rng w)")
    case (Inl e)
    with Cons.prems show ?thesis by auto
  next
    case (Inr xg)
    obtain x g1 where xg: "xg = (x, g1)" by (cases xg)
    let ?w1 = "write_pixel r i x (w\<lparr>rng := g1\<rparr>)"
    from Cons.prems Inr xg have
      "fill_pixels smp r (Suc i) ps ?w1 = Inr w' \<or> fill_pixels smp r (Suc i) ps ?w1 = Inl (f, w')"
      by simp
    from Cons.IH [OF this] write_pixel_frame [of r i x "w\<lparr>rng := g1\<rparr>"]
    show ?thesis by simp
  qed
qed

lemma nth_opt_take:
  assumes "take n ys = xs" and "length xs = n"
  shows "i < n \<Longrightarrow> nth_opt ys i = nth_opt xs i"
  using assms by (auto simp: nth_opt_def)

lemma call_dark_current_frame:
  assumes "call_dark_current L a rate t gain hot w = Inr (r, w')
           \<or> call_dark_current L a rate t gain hot w = Inl (f, w')"
  shows "take (length (heap w)) (heap w') = heap w"
proof (cases "nth_opt (heap w) a")
  case None
  with assms show ?thesis by (simp add: call_dark_current_def)
next
  case (Some base)
  obtain rates g1 where pr: "pixel_rates L base rate hot (rng w) = (rates, g1)"
    by (cases "pixel_rates L base rate hot (rng w)")
  let ?w1 = "w\<lparr>rng := g1, heap := heap w @ [zeros (nd_shape base)]\<rparr>"
  let ?fill = "fill_pixels (poisson L) (length (heap w)) 0 (map (\<lambda>x. x * t / gain) rates) ?w1"
  from assms Some pr have "?fill = Inr w' \<or> ?fill = Inl (f, w')"
    by (auto simp: call_dark_current_def alloc_like_def map_sum_Pair_Inr map_sum_Pair_Inl)
  from fill_pixels_frame [OF this] show ?thesis by simp
qed

lemma call_dark_current_fresh:
  assumes "call_dark_current L a rate t gain hot w = Inr (r, w')"
  shows "r = length (heap w) \<and> a < length (heap w) \<and> length (heap w') = Suc (length (heap w))"
proof (cases "nth_opt (heap w) a")
  case None
  with assms show ?thesis by (simp add: call_dark_current_def)
next
  case (Some base)
  then have lt: "a < length (heap w)" by (auto simp: nth_opt_def split: if_splits)
  obtain rates g1 where pr: "pixel_rates L base rate hot (rng w) = (rates, g1)"
    by (cases "pixel_rates L base rate hot (rng w)")
  let ?w1 = "w\<lparr>rng := g1, heap := heap w @ [zeros (nd_shape base)]\<rparr>"
  let ?fill = "fill_pixels (poisson L) (length (heap w)) 0 (map (\<lambda>x. x * t / gain) rates) ?w1"
  from assms Some pr have r: "r = length (heap w)" and "?fill = Inr w'"
    by (auto simp: call_dark_current_def alloc_like_def map_sum_Pair_Inr)
  then have "?fill = Inr w' \<or> ?fill = Inl (undefined, w')" by simp
  from fill_pixels_frame [OF this] r lt show ?thesis by simp
qed

lemma call_read_noise_frame:
  assumes "call_read_noise L a rn gain w = Inr (r, w')
           \<or> call_read_noise L a rn gain w = Inl (f, w')"
  shows "take (length (heap w)) (heap w') = heap w"
proof (cases "nth_opt (heap w) a")
  case None
  with assms show ?thesis by (simp add: call_read_noise_def)
next
  case (Some base)
  let ?w1 = "w\<lparr>heap := heap w @ [zeros (nd_shape base)]\<rparr>"
  let ?fill = "fill_pixels (normal L 0) (length (heap w)) 0
                 (replicate (npixels base) (rn / gain)) ?w1"
  from assms Some have "?fill = Inr w' \<or> ?fill = Inl (f, w')"
    by (auto simp: call_read_noise_def alloc_like_def map_sum_Pair_Inr map_sum_Pair_Inl)
  from fill_pixels_frame [OF this] show ?thesis by simp
qed

lemma call_read_noise_fresh:
  assumes "call_read_noise L a rn gain w = Inr (r, w')"
  shows "r = length (heap w) \<and> a < length (heap w) \<and> length (heap w') = Suc (length (heap w))"
proof (cases "nth_opt (heap w) a")
  case None
  with assms show ?thesis by (simp add: call_read_noise_def)
next
  case (Some base)
  then have lt: "a < length (heap w)" by (auto simp: nth_opt_def split: if_splits)
  let ?w1 = "w\<lparr>heap := heap w @ [zeros (nd_shape base)]\<rparr>"
  let ?fill = "fill_pixels (normal L 0) (length (heap w)) 0
                 (replicate (npixels base) (rn / gain)) ?w1"
  from assms Some have r: "r = length (heap w)" and "?fill = Inr w'"
    by (auto simp: call_read_noise_def alloc_like_def map_sum_Pair_Inr)
  then have "?fill = Inr w' \<or> ?fill = Inl (undefined, w')" by simp
  from fill_pixels_frame [OF this] r lt show ?thesis by simp
qed

lemma take_chain:
  assumes "take (length xs) ys = xs" and "take (length ys) zs = ys"
  shows "take (length xs) zs = xs"
proof -
  from assms(1) have "length (take (length xs) ys) = length xs" by simp
  then have "length xs \<le> length ys" by simp
  then have "take (length xs) zs = take (length xs) (take (length ys) zs)"
    by (simp add: min_def)
  with assms show ?thesis by simp
qed

lemma darks_loop_frame:
  "darks_loop L a dr ex gain rn k w = Inr (ds, w') \<or> darks_loop L a dr ex gain rn k w = Inl (f, w')
   \<Longrightarrow> take (length (heap w)) (heap w') = heap w"
proof (induction k arbitrary: w ds)
  case 0
  then show ?case by auto
next
  case (Suc k)
  show ?case
  proof (cases "call_dark_current L a dr ex gain False w")
    case (Inl fw)
    with Suc.prems have "call_dark_current L a dr ex gain False w = Inl (f, w')"
      by (auto simp: bind_err_def)
    then show ?thesis using call_dark_current_frame by blast
  next
    case (Inr dw)
    obtain d w1 where dw: "dw = (d, w1)" by (cases dw)
    from Inr dw have 1: "take (length (heap w)) (heap w1) = heap w"
      using call_dark_current_frame by blast
    show ?thesis
    proof (cases "call_read_noise L a rn gain w1")
      case (Inl fw)
      with Suc.prems \<open>call_dark_current L a dr ex gain False w = Inr dw\<close> dw
      have "call_read_noise L a rn gain w1 = Inl (f, w')"
        by (auto simp: bind_err_def)
      then have "take (length (heap w1)) (heap w') = heap w1"
        using call_read_noise_frame by blast
      with 1 show ?thesis using take_chain by blast
    next
      case (Inr rw)
      obtain r w2 where rw: "rw = (r, w2)" by (cases rw)
      from Inr rw have 2: "take (length (heap w1)) (heap w2) = heap w1"
        using call_read_noise_frame by blast
      from Suc.prems \<open>call_dark_current L a dr ex gain False w = Inr dw\<close> dw Inr rw
      have "(\<exists>ds'. darks_loop L a dr ex gain rn k w2 = Inr (ds', w'))
            \<or> darks_loop L a dr ex gain rn k w2 = Inl (f, w')"
        by (auto simp: bind_err_def split: sum.splits)
      then have 3: "take (length (heap w2)) (heap w') = heap w2"
        using Suc.IH by blast
      from take_chain [OF 1 2] have "take (length (heap w)) (heap w2) = heap w" .
      from take_chain [OF this 3] show ?thesis .
    qed
  qed
qed

lemma template_kept:
  assumes "take (length (heap w)) (heap w') = heap w"
  shows "nth_opt (heap w) a = Some x \<Longrightarrow> nth_opt (heap w') a = Some x"
proof -
  assume x: "nth_opt (heap w) a = Some x"
  then have lt: "a < length (heap w)" by (auto simp: nth_opt_def split: if_splits)
  from nth_opt_take [OF assms _ lt] x show ?thesis by simp
qed

text \<open>
  C4. A call of dark_current or read_noise that returns hands back a fresh address: it
  named no array before the call, it differs from the address of base_frame, and it names
  an array afterwards. Every array that existed before the call, base_frame among them, is
  unchanged after it, whether the call returns or raises. So after the loop of the
  notebook, which passes the same base_image to both functions in every round, an all-zero
  base_image is still all zero, for any number of rounds and also when a call raised.
\<close>

theorem base_frame_not_mutated:
  "(call_dark_current L a rate t gain hot w = Inr (r, w1) \<longrightarrow>
      nth_opt (heap w) r = None \<and> r \<noteq> a \<and> r < length (heap w1)
      \<and> take (length (heap w)) (heap w1) = heap w
      \<and> nth_opt (heap w1) a = nth_opt (heap w) a)
   \<and> (call_dark_current L a rate t gain hot w = Inl (f, w2) \<longrightarrow>
      take (length (heap w)) (heap w2) = heap w)
   \<and> (call_read_noise L a rn gain w = Inr (r', w3) \<longrightarrow>
      nth_opt (heap w) r' = None \<and> r' \<noteq> a \<and> r' < length (heap w3)
      \<and> take (length (heap w)) (heap w3) = heap w
      \<and> nth_opt (heap w3) a = nth_opt (heap w) a)
   \<and> (call_read_noise L a rn gain w = Inl (f', w4) \<longrightarrow>
      take (length (heap w)) (heap w4) = heap w)
   \<and> (nth_opt (heap w) a = Some (zeros sh)
        \<and> (darks_loop L a rate t gain rn n_images w = Inr (ds, w5)
           \<or> darks_loop L a rate t gain rn n_images w = Inl (f'', w5)) \<longrightarrow>
      nth_opt (heap w5) a = Some (zeros sh))"
proof -
  have dc: "call_dark_current L a rate t gain hot w = Inr (r, w1) \<longrightarrow>
      nth_opt (heap w) r = None \<and> r \<noteq> a \<and> r < length (heap w1)
      \<and> take (length (heap w)) (heap w1) = heap w
      \<and> nth_opt (heap w1) a = nth_opt (heap w) a"
  proof
    assume c: "call_dark_current L a rate t gain hot w = Inr (r, w1)"
    from call_dark_current_fresh [OF c] have r: "r = length (heap w)"
      and lt: "a < length (heap w)" and len: "length (heap w1) = Suc (length (heap w))"
      by simp_all
    from c have tk: "take (length (heap w)) (heap w1) = heap w"
      using call_dark_current_frame by blast
    from nth_opt_take [OF tk _ lt] have "nth_opt (heap w1) a = nth_opt (heap w) a" by simp
    with r lt len tk show "nth_opt (heap w) r = None \<and> r \<noteq> a \<and> r < length (heap w1)
      \<and> take (length (heap w)) (heap w1) = heap w
      \<and> nth_opt (heap w1) a = nth_opt (heap w) a"
      by (simp add: nth_opt_def)
  qed
  have dcf: "call_dark_current L a rate t gain hot w = Inl (f, w2) \<longrightarrow>
      take (length (heap w)) (heap w2) = heap w"
    using call_dark_current_frame by blast
  have rn: "call_read_noise L a rn gain w = Inr (r', w3) \<longrightarrow>
      nth_opt (heap w) r' = None \<and> r' \<noteq> a \<and> r' < length (heap w3)
      \<and> take (length (heap w)) (heap w3) = heap w
      \<and> nth_opt (heap w3) a = nth_opt (heap w) a"
  proof
    assume c: "call_read_noise L a rn gain w = Inr (r', w3)"
    from call_read_noise_fresh [OF c] have r: "r' = length (heap w)"
      and lt: "a < length (heap w)" and len: "length (heap w3) = Suc (length (heap w))"
      by simp_all
    from c have tk: "take (length (heap w)) (heap w3) = heap w"
      using call_read_noise_frame by blast
    from nth_opt_take [OF tk _ lt] have "nth_opt (heap w3) a = nth_opt (heap w) a" by simp
    with r lt len tk show "nth_opt (heap w) r' = None \<and> r' \<noteq> a \<and> r' < length (heap w3)
      \<and> take (length (heap w)) (heap w3) = heap w
      \<and> nth_opt (heap w3) a = nth_opt (heap w) a"
      by (simp add: nth_opt_def)
  qed
  have rnf: "call_read_noise L a rn gain w = Inl (f', w4) \<longrightarrow>
      take (length (heap w)) (heap w4) = heap w"
    using call_read_noise_frame by blast
  have lp: "nth_opt (heap w) a = Some (zeros sh)
        \<and> (darks_loop L a rate t gain rn n_images w = Inr (ds, w5)
           \<or> darks_loop L a rate t gain rn n_images w = Inl (f'', w5)) \<longrightarrow>
      nth_opt (heap w5) a = Some (zeros sh)"
  proof
    assume h: "nth_opt (heap w) a = Some (zeros sh)
        \<and> (darks_loop L a rate t gain rn n_images w = Inr (ds, w5)
           \<or> darks_loop L a rate t gain rn n_images w = Inl (f'', w5))"
    then have "take (length (heap w)) (heap w5) = heap w"
      using darks_loop_frame by blast
    from template_kept [OF this] h show "nth_opt (heap w5) a = Some (zeros sh)" by blast
  qed
  from dc dcf rn rnf lp show ?thesis by blast
qed

lemma frame_demo:
  "call_dark_current counter_lib 0 0.1 100 1.5 False demo_world = Inr (1, dark_world)
   \<and> call_dark_current counter_lib 0 (- 0.1) 100 1.5 False demo_world
     = Inl (Raised ''lam < 0'', raised_world)
   \<and> call_read_noise counter_lib 0 10 1.5 demo_world = Inr (1, noise_world)
   \<and> call_read_noise counter_lib 0 (- 10) 1.5 demo_world
     = Inl (Raised ''scale < 0'', raised_world)
   \<and> nth_opt (heap demo_world) 0 = Some (zeros (2, 2))
   \<and> darks_loop counter_lib 0 0.1 100 1.5 10 1 demo_world
     = Inr ([[6, 41/3, 4/3, 6]], darks_world)"
  by code_simp

theorem base_frame_not_mutated_witness:
  "call_dark_current counter_lib 0 0.1 100 1.5 False demo_world = Inr (1, dark_world)
   \<and> call_dark_current counter_lib 0 (- 0.1) 100 1.5 False demo_world
     = Inl (Raised ''lam < 0'', raised_world)
   \<and> call_read_noise counter_lib 0 10 1.5 demo_world = Inr (1, noise_world)
   \<and> call_read_noise counter_lib 0 (- 10) 1.5 demo_world
     = Inl (Raised ''scale < 0'', raised_world)
   \<and> nth_opt (heap demo_world) 0 = Some (zeros (2, 2))
   \<and> darks_loop counter_lib 0 0.1 100 1.5 10 1 demo_world
     = Inr ([[6, 41/3, 4/3, 6]], darks_world)
   \<and> nth_opt (heap demo_world) 1 = None
   \<and> (1::nat) \<noteq> 0
   \<and> take (length (heap demo_world)) (heap dark_world) = heap demo_world
   \<and> take (length (heap demo_world)) (heap raised_world) = heap demo_world
   \<and> take (length (heap demo_world)) (heap noise_world) = heap demo_world
   \<and> nth_opt (heap darks_world) 0 = Some (zeros (2, 2))"
  using
    base_frame_not_mutated [where L = counter_lib and a = 0 and rate = "0.1" and t = 100
      and gain = "1.5" and hot = False and w = demo_world and rn = "10"
      and r = 1 and ?w1.0 = dark_world and f = "Raised ''lam < 0''" and ?w2.0 = raised_world
      and r' = 1 and ?w3.0 = noise_world and f' = "Raised ''scale < 0''" and ?w4.0 = raised_world
      and sh = "(2, 2)" and n_images = 1 and ds = "[[6, 41/3, 4/3, 6]]"
      and f'' = "Raised ''lam < 0''" and ?w5.0 = darks_world]
    base_frame_not_mutated [where L = counter_lib and a = 0 and rate = "- 0.1" and t = 100
      and gain = "1.5" and hot = False and w = demo_world and rn = "- 10"
      and r = 1 and ?w1.0 = dark_world and f = "Raised ''lam < 0''" and ?w2.0 = raised_world
      and r' = 1 and ?w3.0 = noise_world and f' = "Raised ''scale < 0''" and ?w4.0 = raised_world
      and sh = "(2, 2)" and n_images = 1 and ds = "[[6, 41/3, 4/3, 6]]"
      and f'' = "Raised ''lam < 0''" and ?w5.0 = darks_world]
    frame_demo
  by blast


subsection \<open>Zero rate and zero read noise\<close>






subsection \<open>Errors of the library\<close>















subsection \<open>Seeding and reproducibility\<close>










end
